theory Spec2Isabelle
  imports Main "HOL-Library.Word"
begin

section \<open>The document viewer: message handling, acquisition and dispatch\<close>

text \<open>
  A shallow embedding of the \<^verbatim>\<open>DocumentViewer\<close> component of \<^verbatim>\<open>src/App.tsx\<close>: the
  message listener \<^verbatim>\<open>handleMessage\<close>, the base64 acquisition \<^verbatim>\<open>loadFileFromBase64\<close>, the
  dispatch \<^verbatim>\<open>processFile\<close> and the three \<^verbatim>\<open>process...Document\<close> functions. The
  repository holds two more variants of the component; they share \<^verbatim>\<open>processFile\<close> and the
  shape of the load, and differ in the filters of the listener and in what they post. The
  upload handler, the loader from a URL of one variant and the rendering of the page are
  not modelled.

  Conventions of the model.
  \<^item> A JavaScript string is a \<^typ>\<open>string\<close>: its code units are the 8-bit characters of HOL,
    so code units above 255 are outside the model.
  \<^item> The React state variables are the fields of the record \<open>viewer\<close>; a setter call is a
    record update. The messages handed to \<^verbatim>\<open>window.ReactNativeWebView.postMessage\<close> are
    collected, in order, in the field \<open>outbox\<close>, and the calls of the two rendering
    libraries in the field \<open>libraryCalls\<close>.
  \<^item> \<^verbatim>\<open>addDebugInfo\<close> and \<^verbatim>\<open>console.log\<close> only append to a diagnostic log that no
    function reads; the log is left out. Where the argument of a logging call can throw,
    the throw is kept.
  \<^item> What the browser and the libraries supply (\<^verbatim>\<open>JSON.parse\<close>, the texts of engine
    errors, \<^verbatim>\<open>renderAsync\<close>, \<^verbatim>\<open>XLSX.read\<close>, the presence of the native bridge) is a
    parameter, the record \<open>platform\<close>. \<^verbatim>\<open>atob\<close> is written out after the HTML standard.
  \<^item> An \<^verbatim>\<open>async\<close> function runs until its first \<^verbatim>\<open>await\<close> on a promise that settles in a
    later turn of the event loop; what is left of it is a \<open>task\<close>, resumed by \<open>resume\<close>.
    An \<^verbatim>\<open>await\<close> on a promise that is already settled continues in the same turn, before
    any other message is delivered, and is modelled as a plain call.
\<close>

subsection \<open>Strings\<close>

text \<open>\<^verbatim>\<open>String.prototype.includes\<close>: the argument occurs as a contiguous part.\<close>

fun str_includes :: "string \<Rightarrow> string \<Rightarrow> bool" where
  "str_includes [] sub = (sub = [])"
| "str_includes (c # cs) sub = (take (length sub) (c # cs) = sub \<or> str_includes cs sub)"

text \<open>\<^verbatim>\<open>String.prototype.toLowerCase\<close> on 8-bit code units: A-Z, and the capital letters
  of Latin-1 (all of 192..222 but the multiplication sign 215).\<close>

definition lowerChar :: "char \<Rightarrow> char" where
  "lowerChar c =
     (let n = (of_char c :: nat)
      in if (65 \<le> n \<and> n \<le> 90) \<or> (192 \<le> n \<and> n \<le> 222 \<and> n \<noteq> 215)
         then char_of (n + 32) else c)"

definition toLowerCase :: "string \<Rightarrow> string" where
  "toLowerCase s = map lowerChar s"

text \<open>\<^verbatim>\<open>s.split('.')\<close>: the pieces between the dots; a string without a dot is its only
  piece, the empty string included.\<close>

fun split_dot :: "string \<Rightarrow> string list" where
  "split_dot [] = [[]]"
| "split_dot (c # cs) =
     (if c = CHR ''.'' then [] # split_dot cs
      else (case split_dot cs of [] \<Rightarrow> [[c]] | w # ws \<Rightarrow> (c # w) # ws))"

text \<open>\<^verbatim>\<open>Array.prototype.pop\<close>: the last element, \<^verbatim>\<open>undefined\<close> on an empty array.\<close>

definition pop :: "'a list \<Rightarrow> 'a option" where
  "pop xs = (if xs = [] then None else Some (last xs))"

subsection \<open>Data\<close>

type_synonym byte = "8 word"

text \<open>A \<^verbatim>\<open>File\<close>: its name and its bytes.\<close>

record File =
  name :: string
  contents :: "byte list"

text \<open>\<^verbatim>\<open>type FileType = 'word' | 'excel' | 'powerpoint' | ''\<close>.\<close>

datatype FileType = ft_word | ft_excel | ft_powerpoint | ft_empty

text \<open>The branch that \<^verbatim>\<open>processFile\<close> takes.\<close>

datatype ProcessorKind = Word | Excel | PowerPoint | Unknown

text \<open>\<^verbatim>\<open>interface NativeMessage\<close>, in the three shapes the component builds.\<close>

datatype NativeMessage = READY | LOADED string | WEB_ERROR string

text \<open>A thrown value: an instance of \<^verbatim>\<open>Error\<close> with its message, or anything else.\<close>

datatype thrown = ErrorObject string | NonError

text \<open>A cell is \<^verbatim>\<open>string | number\<close>; a worksheet is represented by the rows that
  \<^verbatim>\<open>XLSX.utils.sheet_to_json(worksheet, { header: 1 })\<close> returns for it. An object used as
  a dictionary (\<^verbatim>\<open>interface ExcelSheetData\<close>, \<^verbatim>\<open>workbook.Sheets\<close>) is the list of its
  entries; nothing below depends on their order.\<close>

type_synonym cell = "string + int"
type_synonym rows = "cell list list"
type_synonym ExcelSheetData = "(string \<times> rows) list"

record workbook =
  SheetNames :: "string list"
  Sheets :: "(string \<times> rows) list"

text \<open>The value of \<^verbatim>\<open>JSON.parse\<close>, as far as the handler reads it: \<^verbatim>\<open>null\<close>, a value
  without properties of interest (a number, a string, a boolean, an array), or an object
  with its \<^verbatim>\<open>type\<close>, \<^verbatim>\<open>fileData\<close> and \<^verbatim>\<open>fileName\<close> properties. A property is a string, as
  \<^verbatim>\<open>interface IncomingMessage\<close> declares, or absent (\<open>None\<close>).\<close>

datatype parsed =
    PNull
  | PNonObject
  | PObject (ptype: "string option") (pfileData: "string option") (pfileName: "string option")

datatype libraryCall = RenderAsyncCall "byte list" | XlsxReadCall "byte list"

record platform =
  ReactNativeWebView :: bool
  JSON_parse :: "string \<Rightarrow> string + parsed"
  typeErrorMessage :: "string \<Rightarrow> string"
  atobErrorMessage :: string
  renderAsync :: "byte list \<Rightarrow> thrown option"
  XLSX_read :: "byte list \<Rightarrow> thrown + workbook"

text \<open>
  \<^item> \<open>ReactNativeWebView\<close>: whether \<^verbatim>\<open>window.ReactNativeWebView\<close> is defined.
  \<^item> \<open>JSON_parse\<close>: \<open>Inl\<close> is the message of the \<^verbatim>\<open>SyntaxError\<close>.
  \<^item> \<open>typeErrorMessage p\<close>: the message of the \<^verbatim>\<open>TypeError\<close> for reading property \<open>p\<close> of
    \<^verbatim>\<open>null\<close> or \<^verbatim>\<open>undefined\<close>.
  \<^item> \<open>atobErrorMessage\<close>: the message of the \<^verbatim>\<open>InvalidCharacterError\<close> of \<^verbatim>\<open>atob\<close>.
  \<^item> \<open>renderAsync\<close>: \<open>None\<close> when the promise resolves, the thrown value otherwise.
  \<^item> \<open>XLSX_read\<close>: the workbook, or the thrown value.
\<close>

record viewer =
  selectedFile :: "File option"
  fileType :: FileType
  isLoading :: bool
  error :: string
  excelData :: "ExcelSheetData option"
  isEmbedded :: bool
  outbox :: "NativeMessage list"
  libraryCalls :: "libraryCall list"

text \<open>The state of a freshly mounted component: the \<^verbatim>\<open>useState\<close> initial values, and
  \<^verbatim>\<open>isEmbedded\<close> as the mount effect sets it; \<open>embedded\<close> is whether the query string
  has \<^verbatim>\<open>viewMode=embedded\<close>.\<close>

definition initialViewer :: "bool \<Rightarrow> viewer" where
  "initialViewer embedded =
     \<lparr>selectedFile = None, fileType = ft_empty, isLoading = False, error = [],
      excelData = None, isEmbedded = embedded, outbox = [], libraryCalls = []\<rparr>"

text \<open>What is left of a load after an \<^verbatim>\<open>await\<close> on a promise that settles later:
  \<^verbatim>\<open>file.arrayBuffer()\<close> in \<^verbatim>\<open>processWordDocument\<close>, \<^verbatim>\<open>renderAsync(...)\<close> there, or
  \<^verbatim>\<open>file.arrayBuffer()\<close> in \<^verbatim>\<open>processExcelDocument\<close>. The file is the one of the enclosing
  \<^verbatim>\<open>loadFileFromBase64\<close>; its name is that call's \<^verbatim>\<open>fileName\<close>.\<close>

datatype task =
    AwaitWordBuffer File
  | AwaitRender File
  | AwaitExcelBuffer File

text \<open>How a call of an \<^verbatim>\<open>async\<close> function stands when control returns.\<close>

datatype outcome = Resolved | Rejected thrown | Suspended task

subsection \<open>Base64 acquisition\<close>

text \<open>\<^verbatim>\<open>atob\<close> is the browser's; it is written out after the HTML standard's
  \<^emph>\<open>forgiving-base64 decode\<close>: ASCII whitespace is removed; if the length is then a multiple
  of four, one or two trailing \<^verbatim>\<open>=\<close> are removed; a length that leaves the remainder 1, or
  a character outside the alphabet, is a failure; every character stands for six bits, 24
  bits give three bytes, and of 12 or 18 bits left at the end the last 4 or 2 are dropped.\<close>

definition isAsciiWhitespace :: "char \<Rightarrow> bool" where
  "isAsciiWhitespace c = (c \<in> set [CHR 0x09, CHR 0x0A, CHR 0x0C, CHR 0x0D, CHR 0x20])"

definition base64Alphabet :: string where
  "base64Alphabet = ''ABCDEFGHIJKLMNOPQRSTUVWXYZabcdefghijklmnopqrstuvwxyz0123456789+/''"

fun index_of :: "'a list \<Rightarrow> 'a \<Rightarrow> nat option" where
  "index_of [] x = None"
| "index_of (y # ys) x = (if x = y then Some 0 else map_option Suc (index_of ys x))"

definition dropEquals :: "string \<Rightarrow> string" where
  "dropEquals s = (if s \<noteq> [] \<and> last s = CHR ''='' then butlast s else s)"

definition stripPadding :: "string \<Rightarrow> string" where
  "stripPadding s = (if length s mod 4 = 0 then dropEquals (dropEquals s) else s)"

fun decodeSextets :: "nat list \<Rightarrow> nat list" where
  "decodeSextets (a # b # c # d # rest) =
     (let n = ((a * 64 + b) * 64 + c) * 64 + d
      in [n div 65536, n div 256 mod 256, n mod 256] @ decodeSextets rest)"
| "decodeSextets [a, b, c] =
     (let n = ((a * 64 + b) * 64 + c) div 4 in [n div 256, n mod 256])"
| "decodeSextets [a, b] = [(a * 64 + b) div 16]"
| "decodeSextets [a] = []"
| "decodeSextets [] = []"

definition forgivingBase64Decode :: "string \<Rightarrow> nat list option" where
  "forgivingBase64Decode s =
     (let d = stripPadding (filter (\<lambda>c. \<not> isAsciiWhitespace c) s)
      in if length d mod 4 = 1 then None
         else map_option decodeSextets (those (map (index_of base64Alphabet) d)))"

text \<open>\<^verbatim>\<open>atob\<close> returns the bytes as a string of code units, or throws.\<close>

definition atob :: "platform \<Rightarrow> string \<Rightarrow> thrown + string" where
  "atob P s =
     (case forgivingBase64Decode s of
        None \<Rightarrow> Inl (ErrorObject (atobErrorMessage P))
      | Some bs \<Rightarrow> Inr (map char_of bs))"

text \<open>Lines 121 to 128 of \<^verbatim>\<open>loadFileFromBase64\<close>: \<^verbatim>\<open>atob\<close>, the loop that reads
  \<^verbatim>\<open>charCodeAt(i)\<close> into \<^verbatim>\<open>byteNumbers\<close>, and \<^verbatim>\<open>new Uint8Array(byteNumbers)\<close>, which
  keeps every number modulo 256.\<close>

definition byteNumbers :: "string \<Rightarrow> nat list" where
  "byteNumbers byteCharacters = map of_char byteCharacters"

definition Uint8Array :: "nat list \<Rightarrow> byte list" where
  "Uint8Array ns = map of_nat ns"

definition fromBase64 :: "platform \<Rightarrow> string \<Rightarrow> thrown + byte list" where
  "fromBase64 P base64Data =
     (case atob P base64Data of
        Inl e \<Rightarrow> Inl e
      | Inr byteCharacters \<Rightarrow> Inr (Uint8Array (byteNumbers byteCharacters)))"

text \<open>Modelled from the spec: \<^verbatim>\<open>base64Encode\<close>, the standard base64 encoding (RFC 4648,
  section 4) that the host applies to the document before it sends it; the viewer's source
  has no encoder. Three bytes give four characters of the alphabet; one or two bytes left
  at the end are filled with zero bits and padded with \<^verbatim>\<open>=\<close> to four characters.\<close>

definition enc :: "nat \<Rightarrow> char" where
  "enc i = base64Alphabet ! i"

fun base64Encode :: "byte list \<Rightarrow> string" where
  "base64Encode (a # b # c # rest) =
     (let n = (unat a * 256 + unat b) * 256 + unat c
      in [enc (n div 262144), enc (n div 4096 mod 64), enc (n div 64 mod 64), enc (n mod 64)]
         @ base64Encode rest)"
| "base64Encode [a, b] =
     (let n = (unat a * 256 + unat b) * 4
      in [enc (n div 4096), enc (n div 64 mod 64), enc (n mod 64), CHR ''=''])"
| "base64Encode [a] =
     (let n = unat a * 16 in [enc (n div 64), enc (n mod 64), CHR ''='', CHR ''=''])"
| "base64Encode [] = []"

text \<open>Modelled from the spec: what the specification calls valid base64, the input of
  a \<^emph>\<open>standard base64 decode\<close> with its alphabet and its padding (RFC 4648, section 4): a
  multiple of four characters, all of the alphabet but for one or two \<^verbatim>\<open>=\<close> at the very
  end.\<close>

definition standardBase64 :: "string \<Rightarrow> bool" where
  "standardBase64 s =
     (length s mod 4 = 0
      \<and> list_all (\<lambda>c. c \<in> set base64Alphabet) (dropEquals (dropEquals s)))"

text \<open>The encoder's output in two parts, for the proofs: the six-bit groups it writes,
  and the padding it appends.\<close>

fun encodeSextets :: "byte list \<Rightarrow> nat list" where
  "encodeSextets (a # b # c # rest) =
     (let n = (unat a * 256 + unat b) * 256 + unat c
      in [n div 262144, n div 4096 mod 64, n div 64 mod 64, n mod 64] @ encodeSextets rest)"
| "encodeSextets [a, b] =
     (let n = (unat a * 256 + unat b) * 4 in [n div 4096, n div 64 mod 64, n mod 64])"
| "encodeSextets [a] = (let n = unat a * 16 in [n div 64, n mod 64])"
| "encodeSextets [] = []"

fun padding :: "byte list \<Rightarrow> string" where
  "padding (a # b # c # rest) = padding rest"
| "padding [a, b] = ''=''"
| "padding [a] = ''==''"
| "padding [] = []"

subsection \<open>Classification and dispatch\<close>

text \<open>\<^verbatim>\<open>const fileExtension = file.name.split('.').pop()?.toLowerCase()\<close>.\<close>

definition fileExtension :: "string \<Rightarrow> string option" where
  "fileExtension n = map_option toLowerCase (pop (split_dot n))"

text \<open>The chain of comparisons in \<^verbatim>\<open>processFile\<close>.\<close>

definition classify :: "string \<Rightarrow> ProcessorKind" where
  "classify n =
     (let e = fileExtension n
      in if e = Some ''docx'' \<or> e = Some ''doc'' then Word
         else if e = Some ''xlsx'' \<or> e = Some ''xls'' then Excel
         else if e = Some ''pptx'' \<or> e = Some ''ppt'' then PowerPoint
         else Unknown)"

text \<open>\<^verbatim>\<open>processWordDocument\<close> and \<^verbatim>\<open>processExcelDocument\<close> set the file type and
  suspend at \<^verbatim>\<open>await file.arrayBuffer()\<close>; \<^verbatim>\<open>processPowerPointDocument\<close> only sets the
  file type.\<close>

definition processWordDocument :: "File \<Rightarrow> viewer \<Rightarrow> viewer \<times> outcome" where
  "processWordDocument file st = (st\<lparr>fileType := ft_word\<rparr>, Suspended (AwaitWordBuffer file))"

definition processExcelDocument :: "File \<Rightarrow> viewer \<Rightarrow> viewer \<times> outcome" where
  "processExcelDocument file st = (st\<lparr>fileType := ft_excel\<rparr>, Suspended (AwaitExcelBuffer file))"

definition processPowerPointDocument :: "viewer \<Rightarrow> viewer" where
  "processPowerPointDocument st = st\<lparr>fileType := ft_powerpoint\<rparr>"

text \<open>\<^verbatim>\<open>processFile\<close>; its \<^verbatim>\<open>catch\<close> logs and throws the same value again.\<close>

definition processFile :: "File \<Rightarrow> viewer \<Rightarrow> viewer \<times> outcome" where
  "processFile file st =
     (case classify (name file) of
        Word \<Rightarrow> processWordDocument file st
      | Excel \<Rightarrow> processExcelDocument file st
      | PowerPoint \<Rightarrow> (processPowerPointDocument st, Resolved)
      | Unknown \<Rightarrow> (st, Rejected (ErrorObject ''Unsupported file type'')))"

subsection \<open>Outbound messages\<close>

definition postMessageToNative :: "platform \<Rightarrow> NativeMessage \<Rightarrow> viewer \<Rightarrow> viewer" where
  "postMessageToNative P message st =
     (if ReactNativeWebView P then st\<lparr>outbox := outbox st @ [message]\<rparr> else st)"

definition postErrorToNative :: "platform \<Rightarrow> string \<Rightarrow> viewer \<Rightarrow> viewer" where
  "postErrorToNative P message st = postMessageToNative P (WEB_ERROR message) st"

subsection \<open>Loading\<close>

text \<open>The end of the \<^verbatim>\<open>try\<close> block of \<^verbatim>\<open>loadFileFromBase64\<close> once \<^verbatim>\<open>processFile\<close> has
  resolved, and its \<^verbatim>\<open>catch\<close> block; both followed by the \<^verbatim>\<open>finally\<close> block.\<close>

definition loadCompleted :: "platform \<Rightarrow> string \<Rightarrow> viewer \<Rightarrow> viewer" where
  "loadCompleted P fileName st = (postMessageToNative P (LOADED fileName) st)\<lparr>isLoading := False\<rparr>"

definition loadErrorMessage :: "thrown \<Rightarrow> string" where
  "loadErrorMessage err =
     (case err of ErrorObject m \<Rightarrow> m | NonError \<Rightarrow> ''Error loading file from data'')"

definition loadFailed :: "platform \<Rightarrow> thrown \<Rightarrow> viewer \<Rightarrow> viewer" where
  "loadFailed P err st =
     (let errorMessage = loadErrorMessage err
      in (postErrorToNative P errorMessage (st\<lparr>error := errorMessage\<rparr>))\<lparr>isLoading := False\<rparr>)"

text \<open>\<^verbatim>\<open>await processFile(file)\<close> and what follows it.\<close>

definition afterProcessFile :: "platform \<Rightarrow> File \<Rightarrow> viewer \<times> outcome \<Rightarrow> viewer \<times> task option" where
  "afterProcessFile P file r =
     (case r of
        (st, Resolved) \<Rightarrow> (loadCompleted P (name file) st, None)
      | (st, Rejected err) \<Rightarrow> (loadFailed P err st, None)
      | (st, Suspended k) \<Rightarrow> (st, Some k))"

text \<open>The three setter calls that open \<^verbatim>\<open>loadFileFromBase64\<close>.\<close>

definition beginLoad :: "viewer \<Rightarrow> viewer" where
  "beginLoad st = st\<lparr>isLoading := True, error := [], excelData := None\<rparr>"

definition loadFileFromBase64 :: "platform \<Rightarrow> string \<Rightarrow> string \<Rightarrow> viewer \<Rightarrow> viewer \<times> task option" where
  "loadFileFromBase64 P base64Data fileName st =
     (case fromBase64 P base64Data of
        Inl err \<Rightarrow> (loadFailed P err (beginLoad st), None)
      | Inr byteArray \<Rightarrow>
          (let file = \<lparr>name = fileName, contents = byteArray\<rparr>
           in afterProcessFile P file (processFile file ((beginLoad st)\<lparr>selectedFile := Some file\<rparr>))))"

subsection \<open>Resuming a suspended load\<close>

text \<open>The container \<^verbatim>\<open>viewerRef.current\<close> is the \<^verbatim>\<open>div\<close> that the component renders when
  \<^verbatim>\<open>fileType === 'word'\<close>, unless the debug panel is returned instead
  (\<^verbatim>\<open>isEmbedded && (!selectedFile || error)\<close>). The model takes the state to be rendered
  before a suspended load continues.\<close>

definition debugPanel :: "viewer \<Rightarrow> bool" where
  "debugPanel st = (isEmbedded st \<and> (selectedFile st = None \<or> error st \<noteq> []))"

definition viewerRefCurrent :: "viewer \<Rightarrow> bool" where
  "viewerRefCurrent st = (fileType st = ft_word \<and> \<not> debugPanel st)"

text \<open>\<^verbatim>\<open>XLSX.utils.sheet_to_json\<close> of a sheet the workbook does not have is the empty
  array; the loop over \<^verbatim>\<open>workbook.SheetNames\<close> fills \<^verbatim>\<open>sheetsData\<close>.\<close>

definition sheet_to_json :: "rows option \<Rightarrow> rows" where
  "sheet_to_json worksheet = (case worksheet of None \<Rightarrow> [] | Some r \<Rightarrow> r)"

text \<open>\<^verbatim>\<open>sheetsData[sheetName] = jsonData\<close>: the entry is replaced, or added at the end.\<close>

fun assign :: "string \<Rightarrow> rows \<Rightarrow> ExcelSheetData \<Rightarrow> ExcelSheetData" where
  "assign k v [] = [(k, v)]"
| "assign k v (p # ps) = (if fst p = k then (k, v) # ps else p # assign k v ps)"

definition sheetsData :: "workbook \<Rightarrow> ExcelSheetData" where
  "sheetsData wb =
     fold (\<lambda>sheetName acc. assign sheetName (sheet_to_json (map_of (Sheets wb) sheetName)) acc)
       (SheetNames wb) []"

text \<open>The rest of \<^verbatim>\<open>processWordDocument\<close> or \<^verbatim>\<open>processExcelDocument\<close> after the awaited
  promise has settled, followed by the rest of \<^verbatim>\<open>processFile\<close> and of
  \<^verbatim>\<open>loadFileFromBase64\<close>; every \<^verbatim>\<open>catch\<close> on the way but the last throws the value on.\<close>

fun resume :: "platform \<Rightarrow> task \<Rightarrow> viewer \<Rightarrow> viewer \<times> task option" where
  "resume P (AwaitWordBuffer file) st =
     (if viewerRefCurrent st
      then (st\<lparr>libraryCalls := libraryCalls st @ [RenderAsyncCall (contents file)]\<rparr>,
            Some (AwaitRender file))
      else (loadFailed P (ErrorObject ''Viewer container not available'') st, None))"
| "resume P (AwaitRender file) st =
     (case renderAsync P (contents file) of
        None \<Rightarrow> (loadCompleted P (name file) st, None)
      | Some err \<Rightarrow> (loadFailed P err st, None))"
| "resume P (AwaitExcelBuffer file) st =
     (let st1 = st\<lparr>libraryCalls := libraryCalls st @ [XlsxReadCall (contents file)]\<rparr>
      in case XLSX_read P (contents file) of
           Inl err \<Rightarrow> (loadFailed P err st1, None)
         | Inr wb \<Rightarrow> (loadCompleted P (name file) (st1\<lparr>excelData := Some (sheetsData wb)\<rparr>), None))"

subsection \<open>The message listener\<close>

text \<open>The \<^verbatim>\<open>try\<close> block of \<^verbatim>\<open>handleMessage\<close> up to the call of \<^verbatim>\<open>loadFileFromBase64\<close>:
  \<^verbatim>\<open>JSON.parse\<close>, reading \<^verbatim>\<open>data.type\<close> (a \<^verbatim>\<open>TypeError\<close> on \<^verbatim>\<open>null\<close>), the comparison with
  \<^verbatim>\<open>'LOAD_DOCUMENT'\<close>, and reading \<^verbatim>\<open>data.fileData.length\<close> (a \<^verbatim>\<open>TypeError\<close> when
  \<^verbatim>\<open>fileData\<close> is absent). \<open>Inr None\<close>: nothing to do; \<open>Inr (Some (fileData, fileName))\<close>:
  the arguments of the call.\<close>

definition readEnvelope :: "platform \<Rightarrow> string \<Rightarrow> thrown + (string \<times> string option) option" where
  "readEnvelope P raw =
     (case JSON_parse P raw of
        Inl m \<Rightarrow> Inl (ErrorObject m)
      | Inr PNull \<Rightarrow> Inl (ErrorObject (typeErrorMessage P ''type''))
      | Inr PNonObject \<Rightarrow> Inr None
      | Inr (PObject t fileData fileName) \<Rightarrow>
          (if t = Some ''LOAD_DOCUMENT''
           then (case fileData of
                   None \<Rightarrow> Inl (ErrorObject (typeErrorMessage P ''length''))
                 | Some d \<Rightarrow> Inr (Some (d, fileName)))
           else Inr None))"

text \<open>The first filter of \<^verbatim>\<open>handleMessage\<close>, on the raw text, and the filter of its
  \<^verbatim>\<open>catch\<close> block, on the message of the error.\<close>

definition noiseText :: "string \<Rightarrow> bool" where
  "noiseText raw = (str_includes raw ''setImmediate'' \<or> str_includes raw ''setImmedia'')"

definition ignoredError :: "string \<Rightarrow> bool" where
  "ignoredError errorMessage =
     (str_includes errorMessage ''setImmediate'' \<or> str_includes errorMessage ''setImmedia''
      \<or> str_includes errorMessage ''not valid JSON'')"

text \<open>An absent \<^verbatim>\<open>fileName\<close> reaches \<^verbatim>\<open>new File([blob], fileName)\<close> as \<^verbatim>\<open>undefined\<close> and
  names the file \<^verbatim>\<open>"undefined"\<close>.\<close>

definition fileNameArgument :: "string option \<Rightarrow> string" where
  "fileNameArgument fileName = (case fileName of None \<Rightarrow> ''undefined'' | Some n \<Rightarrow> n)"

definition handleMessage :: "platform \<Rightarrow> string \<Rightarrow> viewer \<Rightarrow> viewer \<times> task option" where
  "handleMessage P raw st =
     (if noiseText raw then (st, None)
      else (case readEnvelope P raw of
              Inr None \<Rightarrow> (st, None)
            | Inr (Some (fileData, fileName)) \<Rightarrow>
                loadFileFromBase64 P fileData (fileNameArgument fileName) st
            | Inl err \<Rightarrow>
                (let errorMessage =
                       (case err of ErrorObject m \<Rightarrow> m | NonError \<Rightarrow> ''Unknown error parsing message'')
                 in if ignoredError errorMessage then (st, None)
                    else (postErrorToNative P errorMessage st, None))))"

subsection \<open>The event loop\<close>

text \<open>The component together with the loads that are suspended. An event is a message
  from the host, the settling of the promise that the \<open>i\<close>-th suspended load awaits, or
  the timer of the mount effect, which posts \<^verbatim>\<open>READY\<close> in the embedded mode (the effect
  sets the timer only there).\<close>

record system =
  view :: viewer
  pending :: "task list"

datatype event = Message string | Settle nat | Timeout

definition enqueue :: "task option \<Rightarrow> task list \<Rightarrow> task list" where
  "enqueue k ks = (case k of None \<Rightarrow> ks | Some t \<Rightarrow> ks @ [t])"

fun deliver :: "platform \<Rightarrow> system \<Rightarrow> event \<Rightarrow> system" where
  "deliver P sys (Message raw) =
     (case handleMessage P raw (view sys) of
        (st, k) \<Rightarrow> \<lparr>view = st, pending = enqueue k (pending sys)\<rparr>)"
| "deliver P sys (Settle i) =
     (if i < length (pending sys)
      then (case resume P (pending sys ! i) (view sys) of
              (st, k) \<Rightarrow>
                \<lparr>view = st, pending = enqueue k (take i (pending sys) @ drop (Suc i) (pending sys))\<rparr>)
      else sys)"
| "deliver P sys Timeout =
     (if isEmbedded (view sys) then sys\<lparr>view := postMessageToNative P READY (view sys)\<rparr> else sys)"

definition run :: "platform \<Rightarrow> system \<Rightarrow> event list \<Rightarrow> system" where
  "run P sys evs = foldl (deliver P) sys evs"

definition start :: "bool \<Rightarrow> system" where
  "start embedded = \<lparr>view = initialViewer embedded, pending = []\<rparr>"

subsection \<open>The request life cycle read off the component state\<close>

text \<open>The specification's \<^verbatim>\<open>LoadState\<close>, as the component state shows it: a load is
  under way while \<^verbatim>\<open>isLoading\<close> holds, decoding as long as no file is selected and
  processing from then on; otherwise a non-empty \<^verbatim>\<open>error\<close> is the error state, a selected
  file the ready state, and neither the idle state.\<close>

datatype LoadState = Idle | Decoding | Processing | Ready string | Error string


subsection \<open>Failures of the libraries\<close>

text \<open>What the library that a suspended load waits for throws, if it throws:
  \<^verbatim>\<open>renderAsync\<close> for a load suspended in it, \<^verbatim>\<open>XLSX.read\<close> for a spreadsheet whose buffer
  is awaited. A word document whose buffer is awaited has not called its library yet.\<close>

fun processorFailure :: "platform \<Rightarrow> task \<Rightarrow> thrown option" where
  "processorFailure P (AwaitWordBuffer file) = None"
| "processorFailure P (AwaitRender file) = renderAsync P (contents file)"
| "processorFailure P (AwaitExcelBuffer file) =
     (case XLSX_read P (contents file) of Inl err \<Rightarrow> Some err | Inr wb \<Rightarrow> None)"

subsection \<open>A platform to run examples on\<close>

text \<open>A \<^verbatim>\<open>LOAD_DOCUMENT\<close> message as the host writes it.\<close>

definition loadDocumentJson :: "string \<Rightarrow> string \<Rightarrow> string" where
  \<open>loadDocumentJson fileData fileName =
     ''{"type":"LOAD_DOCUMENT","fileData":"'' @ fileData @ ''","fileName":"'' @ fileName @ ''"}''\<close>

text \<open>The example platform has the native bridge. Its \<^verbatim>\<open>JSON.parse\<close> knows the messages
  of the table below and rejects every other text; its libraries accept the bytes that
  begin like a zip archive (\<^verbatim>\<open>PK\<close>, 3, 4; in base64 \<^verbatim>\<open>UEsDB...\<close>) and throw on all others;
  the one sheet of a workbook holds the number of bytes read.\<close>

definition exampleMessages :: "(string \<times> parsed) list" where
  \<open>exampleMessages =
     [(loadDocumentJson ''UEsDBA=='' ''a.xlsx'',
         PObject (Some ''LOAD_DOCUMENT'') (Some ''UEsDBA=='') (Some ''a.xlsx'')),
      (loadDocumentJson ''UEsDBAA='' ''b.xlsx'',
         PObject (Some ''LOAD_DOCUMENT'') (Some ''UEsDBAA='') (Some ''b.xlsx'')),
      (loadDocumentJson ''UEsDBA=='' ''a.docx'',
         PObject (Some ''LOAD_DOCUMENT'') (Some ''UEsDBA=='') (Some ''a.docx'')),
      (loadDocumentJson ''AAAA'' ''a.docx'',
         PObject (Some ''LOAD_DOCUMENT'') (Some ''AAAA'') (Some ''a.docx'')),
      (loadDocumentJson ''AAAA'' ''a.xlsx'',
         PObject (Some ''LOAD_DOCUMENT'') (Some ''AAAA'') (Some ''a.xlsx'')),
      (loadDocumentJson ''not-base64!!'' ''a.xlsx'',
         PObject (Some ''LOAD_DOCUMENT'') (Some ''not-base64!!'') (Some ''a.xlsx'')),
      (loadDocumentJson ''YQ'' ''a.pptx'',
         PObject (Some ''LOAD_DOCUMENT'') (Some ''YQ'') (Some ''a.pptx'')),
      (''{"type":"LOAD_DOCUMENT","fileName":"a.docx"}'',
         PObject (Some ''LOAD_DOCUMENT'') None (Some ''a.docx''))]\<close>

definition zipBytes :: "byte list \<Rightarrow> bool" where
  "zipBytes bs = (take 4 bs = [80, 75, 3, 4])"

definition examplePlatform :: platform where
  "examplePlatform =
     \<lparr>ReactNativeWebView = True,
      JSON_parse = (\<lambda>raw. case map_of exampleMessages raw of
                            Some v \<Rightarrow> Inr v
                          | None \<Rightarrow> Inl ''Unexpected token in JSON at position 0''),
      typeErrorMessage = (\<lambda>p. ''Cannot read properties of undefined (reading '' @ p @ '')''),
      atobErrorMessage = ''The string to be decoded is not correctly encoded.'',
      renderAsync = (\<lambda>bs. if zipBytes bs then None else Some (ErrorObject ''Corrupted zip'')),
      XLSX_read = (\<lambda>bs. if zipBytes bs
                         then Inr \<lparr>SheetNames = [''Sheet1''],
                                   Sheets = [(''Sheet1'', [[Inr (int (length bs))]])]\<rparr>
                         else Inl (ErrorObject ''Corrupted zip''))\<rparr>"

section \<open>Properties\<close>

subsection \<open>Unfolding the model\<close>

lemmas base64_defs = fromBase64_def atob_def byteNumbers_def Uint8Array_def
  forgivingBase64Decode_def stripPadding_def dropEquals_def isAsciiWhitespace_def
  base64Alphabet_def

lemmas post_defs = postErrorToNative_def postMessageToNative_def

lemmas example_defs = examplePlatform_def exampleMessages_def loadDocumentJson_def zipBytes_def

subsection \<open>The example platform\<close>

lemma example_bridge: "ReactNativeWebView examplePlatform"
  by (simp add: examplePlatform_def)



lemma example_decode_zero: "fromBase64 examplePlatform ''AAAA'' = Inr [0, 0, 0]"
  by (simp add: base64_defs)



lemma example_envelope_zero_docx:
  "\<not> noiseText (loadDocumentJson ''AAAA'' ''a.docx'')"
  "readEnvelope examplePlatform (loadDocumentJson ''AAAA'' ''a.docx'')
     = Inr (Some (''AAAA'', Some ''a.docx''))"
  by (simp_all add: noiseText_def readEnvelope_def example_defs)

lemma example_envelope_zero_xlsx:
  "\<not> noiseText (loadDocumentJson ''AAAA'' ''a.xlsx'')"
  "readEnvelope examplePlatform (loadDocumentJson ''AAAA'' ''a.xlsx'')
     = Inr (Some (''AAAA'', Some ''a.xlsx''))"
  by (simp_all add: noiseText_def readEnvelope_def example_defs)


lemma classify_examples:
  "classify ''a.xlsx'' = Excel" "classify ''b.xlsx'' = Excel" "classify ''a.docx'' = Word"
  "classify ''Report.DOCX'' = Word" "classify ''data.csv'' = Unknown"
  "classify ''noext'' = Unknown"
  by code_simp+

text \<open>Accepting a message of the example table, from any state.\<close>

lemma handle_load:
  assumes "\<not> noiseText raw" and "readEnvelope P raw = Inr (Some (d, Some n))"
  shows "handleMessage P raw st = loadFileFromBase64 P d n st"
  using assms by (simp add: handleMessage_def fileNameArgument_def)

lemma load_excel:
  assumes "fromBase64 P d = Inr bs" and "classify n = Excel"
  shows "loadFileFromBase64 P d n st =
           ((beginLoad st)\<lparr>selectedFile := Some \<lparr>name = n, contents = bs\<rparr>, fileType := ft_excel\<rparr>,
            Some (AwaitExcelBuffer \<lparr>name = n, contents = bs\<rparr>))"
  using assms
  by (simp add: loadFileFromBase64_def afterProcessFile_def processFile_def processExcelDocument_def Let_def)

lemma load_word:
  assumes "fromBase64 P d = Inr bs" and "classify n = Word"
  shows "loadFileFromBase64 P d n st =
           ((beginLoad st)\<lparr>selectedFile := Some \<lparr>name = n, contents = bs\<rparr>, fileType := ft_word\<rparr>,
            Some (AwaitWordBuffer \<lparr>name = n, contents = bs\<rparr>))"
  using assms
  by (simp add: loadFileFromBase64_def afterProcessFile_def processFile_def processWordDocument_def Let_def)



lemmas handle_zero_xlsx =
  handle_load [OF example_envelope_zero_xlsx, unfolded load_excel [OF example_decode_zero classify_examples(1)]]

lemmas handle_zero_docx =
  handle_load [OF example_envelope_zero_docx, unfolded load_word [OF example_decode_zero classify_examples(3)]]

lemma example_xlsx_read:
  "XLSX_read examplePlatform [80, 75, 3, 4] =
     Inr \<lparr>SheetNames = [''Sheet1''], Sheets = [(''Sheet1'', [[Inr 4]])]\<rparr>"
  "XLSX_read examplePlatform [80, 75, 3, 4, 0] =
     Inr \<lparr>SheetNames = [''Sheet1''], Sheets = [(''Sheet1'', [[Inr 5]])]\<rparr>"
  "XLSX_read examplePlatform [0, 0, 0] = Inl (ErrorObject ''Corrupted zip'')"
  "renderAsync examplePlatform [0, 0, 0] = Some (ErrorObject ''Corrupted zip'')"
  by (simp_all add: examplePlatform_def zipBytes_def)


subsection \<open>What a resumed load leaves alone\<close>

lemma loadFailed_frame:
  "selectedFile (loadFailed P err st) = selectedFile st"
  "fileType (loadFailed P err st) = fileType st"
  "libraryCalls (loadFailed P err st) = libraryCalls st"
  "isLoading (loadFailed P err st) = False"
  "error (loadFailed P err st) = loadErrorMessage err"
  by (simp_all add: loadFailed_def post_defs Let_def)

lemma loadFailed_outbox:
  "ReactNativeWebView P \<Longrightarrow>
     outbox (loadFailed P err st) = outbox st @ [WEB_ERROR (loadErrorMessage err)]"
  by (simp add: loadFailed_def post_defs Let_def)




subsection \<open>Noise and malformed messages\<close>

text \<open>Claim C2. A raw message that contains one of the noise texts of the listener
  (\<^verbatim>\<open>setImmediate\<close>, \<^verbatim>\<open>setImmedia\<close>) changes nothing: the handler returns the state as
  it was, with no message posted to the host (no \<^verbatim>\<open>WEB_ERROR\<close> in particular), no
  library called and no load started, and the event loop is left as it was.\<close>

theorem noise_is_dropped:
  assumes "noiseText raw"
  shows "handleMessage P raw st = (st, None) \<and> deliver P sys (Message raw) = sys"
  using assms by (simp add: handleMessage_def enqueue_def)

theorem noise_is_dropped_witness:
  "handleMessage examplePlatform ''setImmediate$0.7306$1'' (initialViewer True)
     = (initialViewer True, None)
   \<and> deliver examplePlatform (start True) (Message ''setImmediate$0.7306$1'') = start True"
proof -
  have "noiseText ''setImmediate$0.7306$1''"
    by (simp add: noiseText_def)
  then show ?thesis
    by (rule noise_is_dropped)
qed



subsection \<open>Classification and dispatch\<close>

text \<open>The last piece of \<^verbatim>\<open>split('.')\<close>: the text after the last dot, and the whole
  name when it has no dot.\<close>

lemma split_dot_no_dot: "CHR ''.'' \<notin> set n \<Longrightarrow> split_dot n = [n]"
  by (induction n) auto

lemma split_dot_nonempty: "split_dot n \<noteq> []"
  by (induction n) (auto split: list.splits)

lemma split_dot_append: "split_dot (n @ CHR ''.'' # e) = split_dot n @ split_dot e"
proof (induction n)
  case Nil
  then show ?case by simp
next
  case (Cons c n)
  obtain w ws where "split_dot n = w # ws"
    using split_dot_nonempty [of n] by (cases "split_dot n") auto
  with Cons show ?case
    by simp
qed

lemma fileExtension_no_dot:
  "CHR ''.'' \<notin> set n \<Longrightarrow> fileExtension n = Some (toLowerCase n)"
  by (simp add: fileExtension_def pop_def split_dot_no_dot)

lemma fileExtension_after_dot:
  "CHR ''.'' \<notin> set e \<Longrightarrow> fileExtension (n @ CHR ''.'' # e) = Some (toLowerCase e)"
  by (simp add: fileExtension_def pop_def split_dot_append split_dot_no_dot split_dot_nonempty)

text \<open>Claim C4. The claim sends every file name without an extension to \<^verbatim>\<open>Unknown\<close>.
  The code takes the last piece of \<^verbatim>\<open>split('.')\<close>, which for a name without a dot is the
  whole name: the name \<^verbatim>\<open>docx\<close> has no dot and is classified as a word document.\<close>

theorem classify_name_without_dot:
  "classify ''docx'' = Word \<and> CHR ''.'' \<notin> set ''docx''"
  by code_simp

text \<open>Claim C5. For a file whose name is classified \<^verbatim>\<open>Unknown\<close>, \<^verbatim>\<open>processFile\<close>
  rejects at once with the error \<^verbatim>\<open>Unsupported file type\<close>: the state is untouched, no
  library has been called and no load is left suspended, so none is called later either;
  the enclosing load ends in its \<^verbatim>\<open>catch\<close> block.\<close>

theorem unknown_kind_rejected:
  assumes "classify (name file) = Unknown"
  shows "processFile file st = (st, Rejected (ErrorObject ''Unsupported file type''))
       \<and> afterProcessFile P file (processFile file st)
           = (loadFailed P (ErrorObject ''Unsupported file type'') st, None)
       \<and> libraryCalls (fst (afterProcessFile P file (processFile file st))) = libraryCalls st"
  using assms by (simp add: processFile_def afterProcessFile_def loadFailed_frame)

theorem unknown_kind_rejected_witness:
  "processFile \<lparr>name = ''data.csv'', contents = [1, 2]\<rparr> (initialViewer True)
     = (initialViewer True, Rejected (ErrorObject ''Unsupported file type''))
   \<and> afterProcessFile examplePlatform \<lparr>name = ''data.csv'', contents = [1, 2]\<rparr>
        (processFile \<lparr>name = ''data.csv'', contents = [1, 2]\<rparr> (initialViewer True))
       = (loadFailed examplePlatform (ErrorObject ''Unsupported file type'') (initialViewer True),
          None)
   \<and> libraryCalls (fst (afterProcessFile examplePlatform \<lparr>name = ''data.csv'', contents = [1, 2]\<rparr>
        (processFile \<lparr>name = ''data.csv'', contents = [1, 2]\<rparr> (initialViewer True))))
       = libraryCalls (initialViewer True)"
proof -
  have "classify (name \<lparr>name = ''data.csv'', contents = [1, 2]\<rparr>) = Unknown"
    by (simp add: classify_examples)
  then show ?thesis
    by (rule unknown_kind_rejected)
qed

subsection \<open>Failures of the libraries\<close>

text \<open>Claim C6, as the code has it. When the library a suspended load waits for throws,
  the load ends in the \<^verbatim>\<open>catch\<close> block of \<^verbatim>\<open>loadFileFromBase64\<close> with the thrown value
  itself: the \<^verbatim>\<open>error\<close> state and the \<^verbatim>\<open>WEB_ERROR\<close> posted to the host are the message
  of the thrown \<^verbatim>\<open>Error\<close>, unchanged (for a thrown value that is no \<^verbatim>\<open>Error\<close>, the fixed
  text \<^verbatim>\<open>Error loading file from data\<close>), and \<^verbatim>\<open>isLoading\<close> is cleared. Nothing names
  the kind of the processor.\<close>

theorem processor_failure_message:
  assumes "processorFailure P k = Some err"
    and "ReactNativeWebView P"
  shows "snd (resume P k st) = None
       \<and> error (fst (resume P k st)) = loadErrorMessage err
       \<and> outbox (fst (resume P k st)) = outbox st @ [WEB_ERROR (loadErrorMessage err)]
       \<and> isLoading (fst (resume P k st)) = False"
  using assms
  by (cases k) (simp_all add: loadFailed_frame loadFailed_outbox Let_def split: sum.splits)

theorem processor_failure_message_witness:
  "snd (resume examplePlatform (AwaitRender \<lparr>name = ''a.docx'', contents = [0, 0, 0]\<rparr>)
          (initialViewer True)) = None
   \<and> error (fst (resume examplePlatform (AwaitRender \<lparr>name = ''a.docx'', contents = [0, 0, 0]\<rparr>)
          (initialViewer True))) = ''Corrupted zip''
   \<and> outbox (fst (resume examplePlatform (AwaitRender \<lparr>name = ''a.docx'', contents = [0, 0, 0]\<rparr>)
          (initialViewer True))) = [WEB_ERROR ''Corrupted zip'']
   \<and> isLoading (fst (resume examplePlatform (AwaitRender \<lparr>name = ''a.docx'', contents = [0, 0, 0]\<rparr>)
          (initialViewer True))) = False"
proof -
  have "processorFailure examplePlatform (AwaitRender \<lparr>name = ''a.docx'', contents = [0, 0, 0]\<rparr>)
          = Some (ErrorObject ''Corrupted zip'')"
    by (simp add: example_xlsx_read)
  from processor_failure_message [OF this example_bridge, of "initialViewer True"]
  show ?thesis
    by (simp add: loadErrorMessage_def initialViewer_def)
qed

text \<open>The claim itself fails: a word document and a spreadsheet whose libraries throw
  the same error leave the same \<^verbatim>\<open>error\<close> state and post the same \<^verbatim>\<open>WEB_ERROR\<close>, the
  bare message of the library.\<close>

theorem processor_failure_reaches_host_raw:
  "renderAsync examplePlatform [0, 0, 0] = Some (ErrorObject ''Corrupted zip'')
   \<and> error (view (run examplePlatform (start True)
         [Message (loadDocumentJson ''AAAA'' ''a.docx''), Settle 0, Settle 0])) = ''Corrupted zip''
   \<and> outbox (view (run examplePlatform (start True)
         [Message (loadDocumentJson ''AAAA'' ''a.docx''), Settle 0, Settle 0]))
       = [WEB_ERROR ''Corrupted zip'']
   \<and> XLSX_read examplePlatform [0, 0, 0] = Inl (ErrorObject ''Corrupted zip'')
   \<and> error (view (run examplePlatform (start True)
         [Message (loadDocumentJson ''AAAA'' ''a.xlsx''), Settle 0])) = ''Corrupted zip''
   \<and> outbox (view (run examplePlatform (start True)
         [Message (loadDocumentJson ''AAAA'' ''a.xlsx''), Settle 0]))
       = [WEB_ERROR ''Corrupted zip'']"
  by (simp add: run_def start_def handle_zero_docx handle_zero_xlsx enqueue_def example_xlsx_read
      example_bridge loadFailed_frame loadFailed_outbox loadErrorMessage_def
      viewerRefCurrent_def debugPanel_def beginLoad_def initialViewer_def Let_def)

subsection \<open>The two scenarios of the host channel\<close>





subsection \<open>The file type after a failure\<close>



subsection \<open>Overlapping loads\<close>







subsection \<open>The base64 round trip\<close>

lemma index_of_nth: "distinct xs \<Longrightarrow> i < length xs \<Longrightarrow> index_of xs (xs ! i) = Some i"
proof (induction xs arbitrary: i)
  case Nil
  then show ?case by simp
next
  case (Cons x xs)
  show ?case
  proof (cases i)
    case 0
    then show ?thesis by simp
  next
    case (Suc j)
    with Cons.prems have "j < length xs" "distinct xs" "xs ! j \<noteq> x"
      by auto
    with Cons.IH [of j] Suc show ?thesis by simp
  qed
qed

lemma distinct_alphabet: "distinct base64Alphabet"
  by (simp add: base64Alphabet_def)

lemma length_alphabet: "length base64Alphabet = 64"
  by (simp add: base64Alphabet_def)

lemma alphabet_excludes:
  "CHR ''='' \<notin> set base64Alphabet"
  "CHR 0x09 \<notin> set base64Alphabet" "CHR 0x0A \<notin> set base64Alphabet"
  "CHR 0x0C \<notin> set base64Alphabet" "CHR 0x0D \<notin> set base64Alphabet"
  "CHR 0x20 \<notin> set base64Alphabet"
  by (simp_all add: base64Alphabet_def)

lemma index_of_enc: "i < 64 \<Longrightarrow> index_of base64Alphabet (enc i) = Some i"
  by (simp add: enc_def index_of_nth distinct_alphabet length_alphabet)

lemma enc_in_alphabet: "i < 64 \<Longrightarrow> enc i \<in> set base64Alphabet"
  by (simp add: enc_def length_alphabet)

lemma enc_not_equals: "i < 64 \<Longrightarrow> enc i \<noteq> CHR ''=''"
  using enc_in_alphabet [of i] alphabet_excludes(1) by metis

lemma enc_not_whitespace: "i < 64 \<Longrightarrow> \<not> isAsciiWhitespace (enc i)"
  using enc_in_alphabet [of i] alphabet_excludes
  by (auto simp add: isAsciiWhitespace_def)

lemma equals_not_whitespace: "\<not> isAsciiWhitespace CHR ''=''"
  by (simp add: isAsciiWhitespace_def)

text \<open>Arithmetic of the groups.\<close>

lemma div_step: "x < 256 \<Longrightarrow> (y * 256 + x) div 256 = (y::nat)"
  by simp

lemma mod_step: "x < 256 \<Longrightarrow> (y * 256 + x) mod 256 = (x::nat)"
  by simp

lemma regroup4:
  "((n div 262144 * 64 + n div 4096 mod 64) * 64 + n div 64 mod 64) * 64 + n mod 64 = (n::nat)"
proof -
  have a: "n div 262144 = n div 64 div 64 div 64"
    by (simp add: div_mult2_eq [symmetric])
  have b: "n div 4096 = n div 64 div 64"
    by (simp add: div_mult2_eq [symmetric])
  show ?thesis
    unfolding a b by (simp add: algebra_simps)
qed

lemma regroup3:
  "(n div 4096 * 64 + n div 64 mod 64) * 64 + n mod 64 = (n::nat)"
proof -
  have a: "n div 4096 = n div 64 div 64"
    by (simp add: div_mult2_eq [symmetric])
  show ?thesis
    unfolding a by (simp add: algebra_simps)
qed

lemma regroup2: "n div 64 * 64 + n mod 64 = (n::nat)"
  by (rule div_mult_mod_eq)

lemma bytes3:
  assumes "a < 256" "b < 256" "c < (256::nat)"
  shows "((a * 256 + b) * 256 + c) div 65536 = a"
    and "((a * 256 + b) * 256 + c) div 256 mod 256 = b"
    and "((a * 256 + b) * 256 + c) mod 256 = c"
proof -
  have d: "((a * 256 + b) * 256 + c) div 256 = a * 256 + b"
    using assms(3) by (rule div_step)
  have "((a * 256 + b) * 256 + c) div 65536 = ((a * 256 + b) * 256 + c) div 256 div 256"
    by (simp add: div_mult2_eq [symmetric])
  then show "((a * 256 + b) * 256 + c) div 65536 = a"
    by (simp only: d div_step [OF assms(2)])
  show "((a * 256 + b) * 256 + c) div 256 mod 256 = b"
    by (simp only: d mod_step [OF assms(2)])
  show "((a * 256 + b) * 256 + c) mod 256 = c"
    using assms(3) by (rule mod_step)
qed

lemma decode_group4:
  assumes "a < 256" "b < 256" "c < (256::nat)"
  shows "decodeSextets
           (((a * 256 + b) * 256 + c) div 262144 # ((a * 256 + b) * 256 + c) div 4096 mod 64
             # ((a * 256 + b) * 256 + c) div 64 mod 64 # ((a * 256 + b) * 256 + c) mod 64 # rest)
         = a # b # c # decodeSextets rest"
  by (simp only: decodeSextets.simps Let_def regroup4 bytes3 [OF assms] append_Cons append_Nil)

lemma decode_group3:
  assumes "a < 256" "b < (256::nat)"
  shows "decodeSextets
           [(a * 256 + b) * 4 div 4096, (a * 256 + b) * 4 div 64 mod 64, (a * 256 + b) * 4 mod 64]
         = [a, b]"
proof -
  have "decodeSextets
           [(a * 256 + b) * 4 div 4096, (a * 256 + b) * 4 div 64 mod 64, (a * 256 + b) * 4 mod 64]
        = [(a * 256 + b) * 4 div 4 div 256, (a * 256 + b) * 4 div 4 mod 256]"
    by (simp only: decodeSextets.simps Let_def regroup3)
  also have "(a * 256 + b) * 4 div 4 = a * 256 + b"
    by simp
  finally show ?thesis
    by (simp only: div_step [OF assms(2)] mod_step [OF assms(2)])
qed

lemma decode_group2:
  "decodeSextets [a * 16 div 64, a * 16 mod 64] = [a]"
proof -
  have "decodeSextets [a * 16 div 64, a * 16 mod 64] = [a * 16 div 16]"
    by (simp only: decodeSextets.simps regroup2)
  then show ?thesis
    by simp
qed

lemma unat_byte: "unat (a :: byte) < 256"
  using unsigned_less [of a, where 'a = nat] by simp

lemma decode_encode: "decodeSextets (encodeSextets B) = map unat B"
proof (induction B rule: encodeSextets.induct)
  case (1 a b c rest)
  then show ?case
    by (simp only: encodeSextets.simps Let_def append_Cons append_Nil list.map
        decode_group4 [OF unat_byte unat_byte unat_byte])
next
  case (2 a b)
  then show ?case
    by (simp only: encodeSextets.simps Let_def list.map decode_group3 [OF unat_byte unat_byte])
next
  case (3 a)
  then show ?case
    by (simp only: encodeSextets.simps Let_def list.map decode_group2)
next
  case 4
  then show ?case by simp
qed

text \<open>The shape of the encoder's output.\<close>

lemma sextets_small: "list_all (\<lambda>s. s < 64) (encodeSextets B)"
proof (induction B rule: encodeSextets.induct)
  case (1 a b c rest)
  have "(unat a * 256 + unat b) * 256 + unat c < 16777216"
    using unat_byte [of a] unat_byte [of b] unat_byte [of c] by simp
  then have "((unat a * 256 + unat b) * 256 + unat c) div 262144 < 64"
    by simp
  with 1 show ?case
    by (simp add: Let_def)
next
  case (2 a b)
  have "(unat a * 256 + unat b) * 4 < 262144"
    using unat_byte [of a] unat_byte [of b] by simp
  then have "(unat a * 256 + unat b) * 4 div 4096 < 64"
    by simp
  then show ?case
    by (simp add: Let_def)
next
  case (3 a)
  have "unat a * 16 < 4096"
    using unat_byte [of a] by simp
  then have "unat a * 16 div 64 < 64"
    by simp
  then show ?case
    by (simp add: Let_def)
next
  case 4
  then show ?case by simp
qed

lemma encode_split: "base64Encode B = map enc (encodeSextets B) @ padding B"
  by (induction B rule: base64Encode.induct) (simp_all add: Let_def)

lemma encode_length: "(length (encodeSextets B) + length (padding B)) mod 4 = 0"
  by (induction B rule: encodeSextets.induct) (simp_all add: Let_def)

lemma sextets_length: "length (encodeSextets B) mod 4 \<noteq> 1"
  by (induction B rule: encodeSextets.induct) (simp_all add: Let_def)

lemma padding_cases: "padding B = [] \<or> padding B = ''='' \<or> padding B = ''==''"
  by (induction B rule: padding.induct) simp_all

lemma those_index_enc:
  "list_all (\<lambda>s. s < 64) S \<Longrightarrow> those (map (index_of base64Alphabet) (map enc S)) = Some S"
  by (induction S) (simp_all add: index_of_enc)

lemma filter_enc:
  "list_all (\<lambda>s. s < 64) S \<Longrightarrow> filter (\<lambda>c. \<not> isAsciiWhitespace c) (map enc S) = map enc S"
  by (induction S) (simp_all add: enc_not_whitespace)

lemma filter_padding:
  "filter (\<lambda>c. \<not> isAsciiWhitespace c) (padding B) = padding B"
  using padding_cases [of B] by (auto simp add: equals_not_whitespace)

lemma dropEquals_enc:
  assumes "list_all (\<lambda>s. s < 64) S"
  shows "dropEquals (map enc S) = map enc S"
proof (cases "S = []")
  case True
  then show ?thesis by (simp add: dropEquals_def)
next
  case False
  then have "last S \<in> set S" by simp
  with assms have "last S < 64"
    by (simp add: list_all_iff)
  then have "last (map enc S) \<noteq> CHR ''=''"
    using False by (simp add: last_map enc_not_equals)
  then show ?thesis
    by (simp add: dropEquals_def)
qed

lemma dropEquals_snoc: "dropEquals (xs @ ''='') = xs"
  by (simp add: dropEquals_def)

lemma strip_encoded:
  assumes "list_all (\<lambda>s. s < 64) S"
  shows "dropEquals (dropEquals (map enc S @ padding B)) = map enc S"
proof -
  consider "padding B = []" | "padding B = ''=''" | "padding B = ''==''"
    using padding_cases by blast
  then show ?thesis
  proof cases
    case 1
    then show ?thesis
      by (simp add: dropEquals_enc [OF assms])
  next
    case 2
    then show ?thesis
      by (simp add: dropEquals_snoc dropEquals_enc [OF assms])
  next
    case 3
    have "map enc S @ ''=='' = (map enc S @ ''='') @ ''=''"
      by simp
    then have "dropEquals (map enc S @ ''=='') = map enc S @ ''=''"
      by (simp only: dropEquals_snoc)
    with 3 show ?thesis
      by (simp add: dropEquals_snoc)
  qed
qed

lemma decode_encoded: "forgivingBase64Decode (base64Encode B) = Some (map unat B)"
proof -
  let ?S = "encodeSextets B"
  have small: "list_all (\<lambda>s. s < 64) ?S"
    by (rule sextets_small)
  have f: "filter (\<lambda>c. \<not> isAsciiWhitespace c) (base64Encode B) = map enc ?S @ padding B"
    by (simp add: encode_split filter_enc [OF small] filter_padding)
  have len: "length (map enc ?S @ padding B) mod 4 = 0"
    using encode_length [of B] by simp
  have s: "stripPadding (map enc ?S @ padding B) = map enc ?S"
    unfolding stripPadding_def using len strip_encoded [OF small] by simp
  have n: "length (map enc ?S) mod 4 \<noteq> 1"
    using sextets_length [of B] by simp
  show ?thesis
    unfolding forgivingBase64Decode_def f s Let_def
    using n by (simp add: those_index_enc [OF small] decode_encode del: map_map)
qed

lemma bytes_of_string: "Uint8Array (byteNumbers (map char_of (map unat B))) = B"
proof -
  have "of_nat (of_char (char_of (unat b)) :: nat) = b" for b :: byte
    by (simp add: unat_byte)
  then show ?thesis
    by (simp add: Uint8Array_def byteNumbers_def map_idI)
qed

text \<open>Claim C9. For every byte sequence \<open>B\<close>, the bytes that \<^verbatim>\<open>loadFileFromBase64\<close>
  obtains from the standard base64 encoding of \<open>B\<close> (\<^verbatim>\<open>atob\<close>, the \<^verbatim>\<open>charCodeAt\<close> loop and
  \<^verbatim>\<open>Uint8Array\<close>) are \<open>B\<close>; decoding does not fail.\<close>

theorem base64_round_trip: "fromBase64 P (base64Encode B) = Inr B"
  by (simp add: fromBase64_def atob_def decode_encoded bytes_of_string del: map_map)

theorem base64_round_trip_witness:
  "base64Encode [80, 75, 3, 4, 0] = ''UEsDBAA=''
   \<and> fromBase64 examplePlatform ''UEsDBAA='' = Inr [80, 75, 3, 4, 0]"
proof -
  have e: "base64Encode [80, 75, 3, 4, 0] = ''UEsDBAA=''"
    by (simp add: enc_def base64Alphabet_def)
  from base64_round_trip [of examplePlatform "[80, 75, 3, 4, 0]"]
  show ?thesis
    by (simp only: e simp_thms)
qed

subsection \<open>Texts that the decoder accepts\<close>

text \<open>The decoder of \<^verbatim>\<open>atob\<close> accepts every standard base64 text.\<close>

lemma index_of_member: "x \<in> set xs \<Longrightarrow> index_of xs x \<noteq> None"
  by (induction xs) auto

lemma those_defined:
  "list_all (\<lambda>x. f x \<noteq> None) xs \<Longrightarrow> those (map f xs) \<noteq> None"
  by (induction xs) auto

lemma dropEquals_shape: "\<exists>p. s = dropEquals s @ p \<and> (p = [] \<or> p = ''='')"
proof (cases "s \<noteq> [] \<and> last s = CHR ''=''")
  case True
  then have e: "s = butlast s @ ''=''"
    using append_butlast_last_id [of s] by simp
  have d: "dropEquals s = butlast s"
    using True by (simp add: dropEquals_def)
  have "s = dropEquals s @ ''=''"
    unfolding d by (rule e)
  then show ?thesis
    by blast
next
  case False
  then show ?thesis
    by (auto simp add: dropEquals_def)
qed

lemma filter_equals:
  "list_all (\<lambda>c. c = CHR ''='') p \<Longrightarrow> filter (\<lambda>c. \<not> isAsciiWhitespace c) p = p"
  by (induction p) (simp_all add: equals_not_whitespace)

lemma standard_base64_accepted:
  assumes "standardBase64 s"
  shows "forgivingBase64Decode s \<noteq> None"
proof -
  define d where "d = dropEquals (dropEquals s)"
  have len: "length s mod 4 = 0"
    and alpha: "list_all (\<lambda>c. c \<in> set base64Alphabet) d"
    using assms by (simp_all add: standardBase64_def d_def)
  obtain p1 where p1: "s = dropEquals s @ p1" "p1 = [] \<or> p1 = ''=''"
    using dropEquals_shape [of s] by blast
  obtain p2 where p2: "dropEquals s = d @ p2" "p2 = [] \<or> p2 = ''=''"
    using dropEquals_shape [of "dropEquals s"] unfolding d_def by blast
  define p where "p = p2 @ p1"
  have s: "s = d @ p"
    using p1(1) p2(1) by (simp add: p_def)
  have p: "list_all (\<lambda>c. c = CHR ''='') p" "length p \<le> 2"
    using p1(2) p2(2) by (auto simp add: p_def)
  have nows: "\<not> isAsciiWhitespace c" if "c \<in> set base64Alphabet" for c
    using that alphabet_excludes by (auto simp add: isAsciiWhitespace_def)
  have "filter (\<lambda>c. \<not> isAsciiWhitespace c) d = d"
    using alpha nows by (simp add: list_all_iff)
  moreover have "filter (\<lambda>c. \<not> isAsciiWhitespace c) p = p"
    using p(1) by (rule filter_equals)
  ultimately have f: "filter (\<lambda>c. \<not> isAsciiWhitespace c) s = s"
    by (simp add: s)
  have "length s = length d + length p"
    by (simp add: s)
  with p(2) len have n: "length d mod 4 \<noteq> 1"
    by presburger
  have "those (map (index_of base64Alphabet) d) \<noteq> None"
    using alpha index_of_member [of _ base64Alphabet]
    by (intro those_defined) (auto simp add: list_all_iff)
  then show ?thesis
    using n len by (auto simp add: forgivingBase64Decode_def f stripPadding_def d_def [symmetric])
qed





end
